theory Spec2Isabelle
  imports Complex_Main "HOL-Library.Multiset" "HOL-Library.Product_Lexorder"
begin

section \<open>Opportunity records\<close>

text \<open>
  The executive pipeline manager (class \<open>ExecutivePipelineManager\<close>) works on plain
  JavaScript objects decoded from JSON. Only the properties that the pipeline code reads
  or writes are kept. A property that may be missing is an option: \<open>None\<close> stands for
  an absent property, \<open>undefined\<close> and \<open>null\<close>, and for a date also for the empty
  string; a string property may hold the empty string, which is falsy too. The source's
  \<open>id\<close> and \<open>type\<close> are called \<open>opp_id\<close> and \<open>opp_type\<close>.

  Numbers are exact reals: the comparators only look at the sign of a difference of two
  finite doubles, which is the sign of the exact difference. A deadline or creation date
  is the time value (milliseconds) that \<open>new Date(...)\<close> gives for it; a date string
  that does not parse is outside the model.
\<close>

record opportunity =
  opp_id :: int
  opp_type :: "string option"
  title :: "string option"
  company :: "string option"
  compensation_range :: "string option"
  status :: "string option"
  priority_level :: "string option"
  ai_match_score :: "real option"
  deadline :: "int option"
  created_at :: "int option"
  requirements :: "string list"
  organizer :: "string option"
  speaking_fee :: "string option"

datatype js_error = TypeError | RequestFailed

text \<open>
  An object literal inherits from \<open>Object.prototype\<close>: a lookup \<open>obj[key]\<close> with one of
  these keys finds an inherited member (a function, or the prototype object itself),
  which is truthy, not a number and has no \<open>push\<close>.
\<close>

definition object_prototype_keys :: "string list" where
  "object_prototype_keys =
     [''constructor'', ''hasOwnProperty'', ''isPrototypeOf'', ''propertyIsEnumerable'',
      ''toLocaleString'', ''toString'', ''valueOf'', ''__proto__'',
      ''__defineGetter__'', ''__defineSetter__'', ''__lookupGetter__'', ''__lookupSetter__'']"

section \<open>The host's \<open>Array.prototype.sort\<close>\<close>

text \<open>
  \<open>sort\<close> is a built-in. ECMAScript requires it to be stable and fixes its result only
  for a consistent comparator; otherwise the order is left to the engine. What differs
  between engines, and matters for this code, is the order in which the two elements are
  handed to the comparator: V8 and JavaScriptCore call it with the element that comes
  later in the array first and move that element forward when the result is negative;
  SpiderMonkey calls it with the earlier element first and moves the later one forward
  when the result is positive. The engine is a parameter of the model, and a stable
  insertion sort stands for the engine's algorithm. That is exact whenever the engine's
  test between two elements is the strict order of a key, as it is for the scores and the
  creation dates on both kinds of engine and for the deadlines with the later element
  first: every stable sort then gives the same list. For the other comparators (the
  deadlines with the earlier element first, a priority whose difference is NaN) the model
  gives the order of an insertion sort, and an engine that merges or inserts by bisection
  may give another one; nothing below depends on the order in those cases beyond what
  is said of the records without a deadline.
\<close>

datatype host = LaterFirst | EarlierFirst

definition precedes :: "host \<Rightarrow> ('a \<Rightarrow> 'a \<Rightarrow> real) \<Rightarrow> 'a \<Rightarrow> 'a \<Rightarrow> bool" where
  \<comment> \<open>does the element \<open>later\<close> have to move in front of the element \<open>earlier\<close>?\<close>
  "precedes h cmp later earlier =
     (case h of LaterFirst \<Rightarrow> cmp later earlier < 0
              | EarlierFirst \<Rightarrow> cmp earlier later > 0)"

fun js_insert :: "host \<Rightarrow> ('a \<Rightarrow> 'a \<Rightarrow> real) \<Rightarrow> 'a \<Rightarrow> 'a list \<Rightarrow> 'a list" where
  "js_insert h cmp x [] = [x]"
| "js_insert h cmp x (y # ys) =
     (if precedes h cmp y x then y # js_insert h cmp x ys else x # y # ys)"

definition js_sort :: "host \<Rightarrow> ('a \<Rightarrow> 'a \<Rightarrow> real) \<Rightarrow> 'a list \<Rightarrow> 'a list" where
  "js_sort h cmp xs = foldr (js_insert h cmp) xs []"

section \<open>The comparator of \<open>renderOpportunities\<close>\<close>

definition score_or_0 :: "opportunity \<Rightarrow> real" where
  \<comment> \<open>\<open>opp.ai_match_score || 0\<close>\<close>
  "score_or_0 opp = (case ai_match_score opp of None \<Rightarrow> 0 | Some v \<Rightarrow> v)"

definition created_or_now :: "int \<Rightarrow> opportunity \<Rightarrow> int" where
  \<comment> \<open>\<open>new Date(opp.created_at || Date.now())\<close>, the clock read as \<open>now\<close>\<close>
  "created_or_now now opp = (case created_at opp of None \<Rightarrow> now | Some t \<Rightarrow> t)"

definition priority_or_0 :: "string option \<Rightarrow> real option" where
  \<comment> \<open>\<open>priority[p] || 0\<close> as a number; \<open>None\<close> when it is an inherited member, which
      turns the difference into NaN\<close>
  "priority_or_0 p =
     (case p of None \<Rightarrow> Some 0
      | Some k \<Rightarrow>
          if k = ''critical'' then Some 4
          else if k = ''high'' then Some 3
          else if k = ''medium'' then Some 2
          else if k = ''low'' then Some 1
          else if k \<in> set object_prototype_keys then None
          else Some 0)"

definition sort_comparator :: "int \<Rightarrow> string \<Rightarrow> opportunity \<Rightarrow> opportunity \<Rightarrow> real" where
  \<comment> \<open>the arrow function given to \<open>sort\<close>; a NaN result counts as 0, as \<open>sort\<close> reads it\<close>
  "sort_comparator now currentSort a b =
     (if currentSort = ''ai_match_score'' then score_or_0 b - score_or_0 a
      else if currentSort = ''created_at'' then
        of_int (created_or_now now b - created_or_now now a)
      else if currentSort = ''deadline'' then
        (case deadline a of None \<Rightarrow> 1
         | Some da \<Rightarrow> (case deadline b of None \<Rightarrow> - 1 | Some db \<Rightarrow> of_int (da - db)))
      else if currentSort = ''priority_level'' then
        (case (priority_or_0 (priority_level b), priority_or_0 (priority_level a)) of
           (Some pb, Some pa) \<Rightarrow> pb - pa
         | _ \<Rightarrow> 0)
      else 0)"

section \<open>Kanban grouping\<close>

datatype bucket = Prospect | Applied | Interview_stage | Under_consideration
  | Offer_received | Closed

record status_groups =
  prospect :: "opportunity list"
  applied :: "opportunity list"
  interview_stage :: "opportunity list"
  under_consideration :: "opportunity list"
  offer_received :: "opportunity list"
  closed :: "opportunity list"

definition empty_groups :: status_groups where
  "empty_groups = \<lparr>prospect = [], applied = [], interview_stage = [],
     under_consideration = [], offer_received = [], closed = []\<rparr>"

fun bucket_of :: "status_groups \<Rightarrow> bucket \<Rightarrow> opportunity list" where
  "bucket_of g Prospect = prospect g"
| "bucket_of g Applied = applied g"
| "bucket_of g Interview_stage = interview_stage g"
| "bucket_of g Under_consideration = under_consideration g"
| "bucket_of g Offer_received = offer_received g"
| "bucket_of g Closed = closed g"

fun push :: "bucket \<Rightarrow> opportunity \<Rightarrow> status_groups \<Rightarrow> status_groups" where
  "push Prospect opp g = g\<lparr>prospect := prospect g @ [opp]\<rparr>"
| "push Applied opp g = g\<lparr>applied := applied g @ [opp]\<rparr>"
| "push Interview_stage opp g = g\<lparr>interview_stage := interview_stage g @ [opp]\<rparr>"
| "push Under_consideration opp g = g\<lparr>under_consideration := under_consideration g @ [opp]\<rparr>"
| "push Offer_received opp g = g\<lparr>offer_received := offer_received g @ [opp]\<rparr>"
| "push Closed opp g = g\<lparr>closed := closed g @ [opp]\<rparr>"

datatype property = Own bucket | Inherited | Undefined

definition statusGroups_get :: "string option \<Rightarrow> property" where
  \<comment> \<open>\<open>statusGroups[opp.status]\<close>: an own array, an inherited member, or \<open>undefined\<close>\<close>
  "statusGroups_get st =
     (case st of None \<Rightarrow> Undefined
      | Some k \<Rightarrow>
          if k = ''prospect'' then Own Prospect
          else if k = ''applied'' then Own Applied
          else if k = ''interview_stage'' then Own Interview_stage
          else if k = ''under_consideration'' then Own Under_consideration
          else if k = ''offer_received'' then Own Offer_received
          else if k = ''closed'' then Own Closed
          else if k \<in> set object_prototype_keys then Inherited
          else Undefined)"

definition group_opportunity :: "opportunity \<Rightarrow> status_groups \<Rightarrow> js_error + status_groups" where
  \<comment> \<open>the callback of \<open>filteredOpportunities.forEach\<close>; calling the missing \<open>push\<close>
      of an inherited member throws\<close>
  "group_opportunity opp g =
     (if status opp = Some ''accepted'' \<or> status opp = Some ''rejected''
      then Inr (push Closed opp g)
      else case statusGroups_get (status opp) of
             Own b \<Rightarrow> Inr (push b opp g)
           | Inherited \<Rightarrow> Inl TypeError
           | Undefined \<Rightarrow> Inr (push Prospect opp g))"

fun forEach :: "('a \<Rightarrow> 's \<Rightarrow> js_error + 's) \<Rightarrow> 'a list \<Rightarrow> 's \<Rightarrow> js_error + 's" where
  "forEach f [] g = Inr g"
| "forEach f (x # xs) g = (case f x g of Inl e \<Rightarrow> Inl e | Inr g' \<Rightarrow> forEach f xs g')"

definition group_by_status :: "opportunity list \<Rightarrow> js_error + status_groups" where
  "group_by_status xs = forEach group_opportunity xs empty_groups"

section \<open>The manager's state\<close>

text \<open>
  Arrays are objects with identity: \<open>filteredOpportunities\<close> may be the very array
  that \<open>this.opportunities\<close> refers to, and \<open>sort\<close> works in place. So the state holds
  a store of arrays, and \<open>this.opportunities\<close> is a reference into it. The records of an
  array are kept as values: a record object is shared only with arrays that are out of
  reach by the time it is written to, and with \<open>editingOpportunity\<close>, of which only
  \<open>id\<close> and \<open>type\<close> are read.
\<close>

type_synonym ref = nat

record manager =
  heap :: "ref \<Rightarrow> opportunity list"
  next_ref :: ref
  opportunities :: ref
  speakingOpportunities :: "opportunity list"
  currentFilter :: string
  currentSort :: string
  editingOpportunity :: "opportunity option"

definition alloc :: "opportunity list \<Rightarrow> manager \<Rightarrow> ref \<times> manager" where
  \<comment> \<open>a new array (\<open>filter\<close>, \<open>map\<close>, a spread, a decoded response)\<close>
  "alloc xs s =
     (next_ref s, s\<lparr>heap := (heap s)(next_ref s := xs), next_ref := Suc (next_ref s)\<rparr>)"

definition the_opportunities :: "manager \<Rightarrow> opportunity list" where
  \<comment> \<open>the contents of \<open>this.opportunities\<close>\<close>
  "the_opportunities s = heap s (opportunities s)"

section \<open>Effects\<close>

datatype endpoint =
    ExecutiveOpportunities
  | SpeakingOpportunities
  | ExecutiveOpportunity int
  | ExecutiveOpportunityStatus int
  | SpeakingOpportunity int

record summary =
  total :: nat
  activeInterviews :: nat
  pendingOffers :: nat
  successRate :: int

datatype effect =
    HttpGet endpoint
  | HttpPutStatus endpoint string
  | HttpPutForm endpoint opportunity
  | HttpPostForm endpoint opportunity
  | HttpPostScore "string option" "string list"
  | Notify string string
  | ShowSummary summary
  | ShowKanban status_groups

section \<open>\<open>updateSummaryCards\<close>\<close>

definition count_status :: "string \<Rightarrow> opportunity list \<Rightarrow> nat" where
  \<comment> \<open>\<open>this.opportunities.filter(opp => opp.status === st).length\<close>\<close>
  "count_status st xs = length (filter (\<lambda>opp. status opp = Some st) xs)"

text \<open>
  The success rate is \<open>Math.round((accepted / total) * 100)\<close> in double arithmetic: the
  quotient is rounded to a double, so is the product, and only then is the result rounded
  to an integer. A positive double is kept as a pair \<open>(m, k)\<close> that stands for
  \<open>m / 2 ^ k\<close> with \<open>m\<close> of at most 53 bits; every rounding is to the nearest value, a tie
  going to the even one. The counts are small enough for neither overflow nor subnormal
  numbers to arise, and \<open>accepted\<close> is at most \<open>total\<close>.
\<close>

fun bit_length :: "nat \<Rightarrow> nat" where
  \<comment> \<open>the number of binary digits\<close>
  "bit_length n = (if n = 0 then 0 else Suc (bit_length (n div 2)))"

declare bit_length.simps [simp del]

definition round_half_even :: "nat \<Rightarrow> nat \<Rightarrow> nat" where
  \<comment> \<open>\<open>x / y\<close> rounded to the nearest integer, a tie to the even one\<close>
  "round_half_even x y =
     (let q = x div y; r = x mod y
      in if 2 * r < y then q else if y < 2 * r then q + 1
         else if even q then q else q + 1)"

definition double_quotient :: "nat \<Rightarrow> nat \<Rightarrow> nat \<times> nat" where
  \<comment> \<open>the double \<open>a / n\<close>, for \<open>a \<le> n\<close> and \<open>0 < n\<close>\<close>
  "double_quotient a n =
     (if a = 0 then (0, 0)
      else let k0 = 52 + bit_length n - bit_length a;
               k = (if a * 2 ^ k0 < 2 ^ 52 * n then k0 + 1 else k0)
           in (round_half_even (a * 2 ^ k) n, k))"

definition double_times_100 :: "nat \<times> nat \<Rightarrow> nat \<times> nat" where
  \<comment> \<open>the double \<open>x * 100\<close>, for a double \<open>x\<close> of at most 1\<close>
  "double_times_100 x =
     (let m = 100 * fst x; j = bit_length m - 53
      in (round_half_even m (2 ^ j), snd x - j))"

definition Math_round :: "nat \<times> nat \<Rightarrow> nat" where
  \<comment> \<open>the nearest integer, a tie going up\<close>
  "Math_round x = (2 * fst x + 2 ^ snd x) div (2 * 2 ^ snd x)"

definition updateSummaryCards :: "opportunity list \<Rightarrow> summary" where
  "updateSummaryCards xs =
     (let accepted = count_status ''accepted'' xs in
      \<lparr>total = length xs,
       activeInterviews = count_status ''interview_stage'' xs,
       pendingOffers = count_status ''offer_received'' xs,
       successRate =
         (if length xs > 0
          then int (Math_round (double_times_100 (double_quotient accepted (length xs))))
          else 0)\<rparr>)"

section \<open>\<open>renderOpportunities\<close>\<close>

definition renderOpportunities ::
  "host \<Rightarrow> int \<Rightarrow> manager \<Rightarrow> manager \<times> (js_error + status_groups)" where
  "renderOpportunities h now s =
     (let (filteredOpportunities, s1) =
            (if currentFilter s \<noteq> ''all''
             then alloc (filter (\<lambda>opp. opp_type opp = Some (currentFilter s))
                           (heap s (opportunities s))) s
             else (opportunities s, s));
          s2 = s1\<lparr>heap := (heap s1)(filteredOpportunities :=
                  js_sort h (sort_comparator now (currentSort s))
                    (heap s1 filteredOpportunities))\<rparr>
      in (s2, group_by_status (heap s2 filteredOpportunities)))"

section \<open>\<open>loadPipelineData\<close>\<close>

definition speakingAsExec :: "opportunity \<Rightarrow> opportunity" where
  "speakingAsExec opp =
     opp\<lparr>opp_type := Some ''speaking'',
         ai_match_score := Some (score_or_0 opp),
         compensation_range := speaking_fee opp,
         title := title opp,
         company := organizer opp\<rparr>"

definition load_failed :: effect where
  "load_failed = Notify ''Failed to load pipeline data'' ''error''"

definition loadPipelineData ::
  "host \<Rightarrow> int \<Rightarrow> js_error + opportunity list \<Rightarrow> js_error + opportunity list
     \<Rightarrow> manager \<Rightarrow> manager \<times> effect list" where
  \<comment> \<open>the two responses are what the two \<open>axios.get\<close> calls return or throw\<close>
  "loadPipelineData h now execResponse speakingResponse s =
     (case execResponse of
        Inl e \<Rightarrow> (s, [HttpGet ExecutiveOpportunities, load_failed])
      | Inr execData \<Rightarrow>
          (let (r1, s1) = alloc execData s;
               s2 = s1\<lparr>opportunities := r1\<rparr>
           in (case speakingResponse of
                 Inl e \<Rightarrow>
                   (s2, [HttpGet ExecutiveOpportunities, HttpGet SpeakingOpportunities,
                         load_failed])
               | Inr speakingData \<Rightarrow>
                   (let s3 = s2\<lparr>speakingOpportunities := speakingData\<rparr>;
                        (r2, s4) = alloc (heap s3 (opportunities s3)
                                            @ map speakingAsExec (speakingOpportunities s3)) s3;
                        s5 = s4\<lparr>opportunities := r2\<rparr>;
                        cards = updateSummaryCards (heap s5 (opportunities s5));
                        (s6, groups) = renderOpportunities h now s5
                    in (s6, [HttpGet ExecutiveOpportunities, HttpGet SpeakingOpportunities,
                             ShowSummary cards]
                            @ (case groups of Inl e \<Rightarrow> [load_failed]
                               | Inr g \<Rightarrow> [ShowKanban g]))))))"

section \<open>\<open>updateOpportunityStatus\<close>\<close>

fun findIndex :: "('a \<Rightarrow> bool) \<Rightarrow> 'a list \<Rightarrow> nat option" where
  \<comment> \<open>\<open>None\<close> is the source's \<open>-1\<close>\<close>
  "findIndex P [] = None"
| "findIndex P (x # xs) = (if P x then Some 0 else map_option Suc (findIndex P xs))"

definition type_or_executive :: "opportunity \<Rightarrow> string" where
  \<comment> \<open>\<open>opp.type || 'executive'\<close>\<close>
  "type_or_executive opp =
     (case opp_type opp of None \<Rightarrow> ''executive''
      | Some t \<Rightarrow> if t = [] then ''executive'' else t)"

definition actualStatus :: "string \<Rightarrow> string" where
  \<comment> \<open>"Default to rejected, user can change later"\<close>
  "actualStatus newStatus = (if newStatus = ''closed'' then ''rejected'' else newStatus)"

definition status_endpoint :: "int \<Rightarrow> string \<Rightarrow> endpoint" where
  "status_endpoint i ty =
     (if ty = ''speaking'' then SpeakingOpportunity i else ExecutiveOpportunityStatus i)"

definition update_local :: "int \<Rightarrow> string \<Rightarrow> string \<Rightarrow> manager \<Rightarrow> manager" where
  \<comment> \<open>\<open>this.opportunities[oppIndex].status = actualStatus\<close>, when the record is found\<close>
  "update_local i ty st s =
     (let xs = heap s (opportunities s) in
      case findIndex (\<lambda>opp. opp_id opp = i \<and> type_or_executive opp = ty) xs of
        None \<Rightarrow> s
      | Some oppIndex \<Rightarrow>
          s\<lparr>heap := (heap s)(opportunities s :=
               xs[oppIndex := (xs ! oppIndex)\<lparr>status := Some st\<rparr>])\<rparr>)"

definition update_failed :: effect where
  "update_failed = Notify ''Failed to update status'' ''error''"

definition updateOpportunityStatus ::
  "host \<Rightarrow> int \<Rightarrow> int \<Rightarrow> string \<Rightarrow> string \<Rightarrow> js_error + unit
     \<Rightarrow> js_error + opportunity list \<Rightarrow> js_error + opportunity list
     \<Rightarrow> manager \<Rightarrow> manager \<times> effect list" where
  \<comment> \<open>\<open>putResponse\<close> is the outcome of the \<open>axios.put\<close>; the two reload responses are
      read only when the \<open>catch\<close> block calls \<open>loadPipelineData\<close>\<close>
  "updateOpportunityStatus h now i ty newStatus putResponse execReload speakingReload s =
     (let put = HttpPutStatus (status_endpoint i ty) (actualStatus newStatus) in
      case putResponse of
        Inl e \<Rightarrow>
          (let (s', effs) = loadPipelineData h now execReload speakingReload s
           in (s', [put, update_failed] @ effs))
      | Inr u \<Rightarrow>
          (let s1 = update_local i ty (actualStatus newStatus) s;
               (s2, groups) = renderOpportunities h now s1
           in case groups of
                Inl e \<Rightarrow>
                  (let (s', effs) = loadPipelineData h now execReload speakingReload s2
                   in (s', [put, update_failed] @ effs))
              | Inr g \<Rightarrow>
                  (s2, [put, ShowKanban g,
                        Notify ''Status updated successfully'' ''success''])))"

section \<open>\<open>saveOpportunity\<close>\<close>

definition saveOpportunity ::
  "host \<Rightarrow> int \<Rightarrow> opportunity \<Rightarrow> js_error + real option \<Rightarrow> js_error + unit
     \<Rightarrow> js_error + opportunity list \<Rightarrow> js_error + opportunity list
     \<Rightarrow> manager \<Rightarrow> manager \<times> effect list" where
  \<comment> \<open>\<open>formData\<close> is what the form holds; \<open>scoreResponse\<close> is the outcome of the scoring
      call and \<open>writeResponse\<close> that of the \<open>put\<close> or \<open>post\<close> of the form\<close>
  "saveOpportunity h now formData scoreResponse writeResponse execReload speakingReload s =
     (let requests =
            (case editingOpportunity s of
               Some editing \<Rightarrow>
                 [HttpPutForm
                    (if opp_type editing = Some ''speaking''
                     then SpeakingOpportunity (opp_id editing)
                     else ExecutiveOpportunity (opp_id editing))
                    formData]
             | None \<Rightarrow>
                 [HttpPostScore (opp_type formData) (requirements formData),
                  HttpPostForm
                    (if opp_type formData = Some ''speaking''
                     then SpeakingOpportunities else ExecutiveOpportunities)
                    (formData\<lparr>ai_match_score :=
                       (case scoreResponse of Inl e \<Rightarrow> Some 50 | Inr v \<Rightarrow> v)\<rparr>)])
      in case writeResponse of
           Inl e \<Rightarrow> (s, requests @ [Notify ''Failed to save opportunity'' ''error''])
         | Inr u \<Rightarrow>
             (let s1 = s\<lparr>editingOpportunity := None\<rparr>;
                  done_msg = Notify (if editingOpportunity s1 \<noteq> None
                                     then ''Opportunity updated successfully''
                                     else ''Opportunity created successfully'') ''success'';
                  (s', effs) = loadPipelineData h now execReload speakingReload s1
              in (s', requests @ [done_msg] @ effs)))"

section \<open>Auxiliary definitions for the statements\<close>

definition target_bucket :: "opportunity \<Rightarrow> bucket option" where
  \<comment> \<open>the bucket that the \<open>forEach\<close> callback pushes a record to; \<open>None\<close> when it throws\<close>
  "target_bucket opp =
     (if status opp = Some ''accepted'' \<or> status opp = Some ''rejected'' then Some Closed
      else case statusGroups_get (status opp) of
             Own b \<Rightarrow> Some b | Inherited \<Rightarrow> None | Undefined \<Rightarrow> Some Prospect)"

definition blank :: opportunity where
  \<comment> \<open>a record with no property set, from which the examples are built\<close>
  "blank = \<lparr>opp_id = 0, opp_type = None, title = None, company = None,
     compensation_range = None, status = None, priority_level = None,
     ai_match_score = None, deadline = None, created_at = None, requirements = [],
     organizer = None, speaking_fee = None\<rparr>"

definition manager_of :: "opportunity list \<Rightarrow> string \<Rightarrow> string \<Rightarrow> manager" where
  \<comment> \<open>a manager whose \<open>this.opportunities\<close> holds \<open>xs\<close>, for the examples\<close>
  "manager_of xs flt srt =
     \<lparr>heap = (\<lambda>r. [])(0 := xs), next_ref = 1, opportunities = 0,
      speakingOpportunities = [], currentFilter = flt, currentSort = srt,
      editingOpportunity = None\<rparr>"

definition overall_conversion :: "opportunity list \<Rightarrow> real" where
  \<comment> \<open>Modelled from the spec: the analytics engine that computes the overall conversion
      (behind \<open>GET /api/pipeline/analytics\<close>) is not among the sources, only
      \<open>openAnalytics\<close>, which displays the figure it is sent. In the specification's
      words: count(accepted) / count(all non-prospect records that have left the prospect
      stage), 0 if the denominator is 0.\<close>
  "overall_conversion allRecords =
     (if length (filter (\<lambda>opp. status opp \<noteq> Some ''prospect'') allRecords) = 0 then 0
      else real (length (filter (\<lambda>opp. status opp = Some ''accepted'') allRecords))
           / real (length (filter (\<lambda>opp. status opp \<noteq> Some ''prospect'') allRecords)))"

definition score_example :: "opportunity list" where
  \<comment> \<open>six records in load order; two have no score and one has the score 0\<close>
  "score_example =
     [blank\<lparr>opp_id := 1, ai_match_score := Some 10\<rparr>,
      blank\<lparr>opp_id := 2\<rparr>,
      blank\<lparr>opp_id := 3, ai_match_score := Some 90\<rparr>,
      blank\<lparr>opp_id := 4, ai_match_score := Some 0\<rparr>,
      blank\<lparr>opp_id := 5, ai_match_score := Some 10\<rparr>,
      blank\<lparr>opp_id := 6\<rparr>]"

definition funnel_scenario :: "opportunity list" where
  \<comment> \<open>ten records: six have left prospect, three of them have reached an interview,
      and one of those is accepted\<close>
  "funnel_scenario =
     [blank\<lparr>opp_id := 1, status := Some ''prospect''\<rparr>,
      blank\<lparr>opp_id := 2, status := Some ''prospect''\<rparr>,
      blank\<lparr>opp_id := 3, status := Some ''prospect''\<rparr>,
      blank\<lparr>opp_id := 4, status := Some ''prospect''\<rparr>,
      blank\<lparr>opp_id := 5, status := Some ''applied''\<rparr>,
      blank\<lparr>opp_id := 6, status := Some ''applied''\<rparr>,
      blank\<lparr>opp_id := 7, status := Some ''applied''\<rparr>,
      blank\<lparr>opp_id := 8, status := Some ''interview_stage''\<rparr>,
      blank\<lparr>opp_id := 9, status := Some ''interview_stage''\<rparr>,
      blank\<lparr>opp_id := 10, status := Some ''accepted''\<rparr>]"

definition deadline_key :: "opportunity \<Rightarrow> bool \<times> int" where
  \<comment> \<open>a sort key for deadlines: a missing deadline is above every date\<close>
  "deadline_key opp = (case deadline opp of None \<Rightarrow> (True, 0) | Some d \<Rightarrow> (False, d))"

definition deadline_time :: "opportunity \<Rightarrow> int" where
  \<comment> \<open>the date of a record that has a deadline\<close>
  "deadline_time opp = (case deadline opp of None \<Rightarrow> 0 | Some d \<Rightarrow> d)"

fun is_write :: "effect \<Rightarrow> bool" where
  \<comment> \<open>the requests that change or score something on the server\<close>
  "is_write (HttpPutStatus ep st) = True"
| "is_write (HttpPutForm ep fd) = True"
| "is_write (HttpPostForm ep fd) = True"
| "is_write (HttpPostScore ty rq) = True"
| "is_write e = False"

section \<open>Facts about the sort\<close>

lemma mset_js_insert: "mset (js_insert h cmp x ys) = add_mset x (mset ys)"
  by (induction ys) auto

lemma mset_js_sort: "mset (js_sort h cmp xs) = mset xs"
  by (induction xs) (simp_all add: js_sort_def mset_js_insert)

text \<open>
  When the engine's test between a later and an earlier element is the strict order of a
  key, the model is the library's stable insertion sort by that key, for which sortedness
  and stability are known.
\<close>

lemma js_insert_insort_key:
  assumes "\<And>later earlier. precedes h cmp later earlier \<longleftrightarrow> key later < key earlier"
  shows "js_insert h cmp x ys = insort_key key x ys"
  by (induction ys) (auto simp: assms)

lemma js_sort_sort_key:
  assumes "\<And>later earlier. precedes h cmp later earlier \<longleftrightarrow> key later < key earlier"
  shows "js_sort h cmp xs = sort_key key xs"
  by (induction xs) (simp_all add: js_sort_def sort_key_def js_insert_insort_key [OF assms])

lemma precedes_score:
  "precedes h (sort_comparator now ''ai_match_score'') later earlier
     \<longleftrightarrow> - score_or_0 later < - score_or_0 earlier"
  by (cases h) (simp_all add: precedes_def sort_comparator_def)

section \<open>Sorting by \<open>ai_match_score\<close>\<close>

text \<open>
  C8. Sorted with the key \<open>ai_match_score\<close>, on either kind of engine, the records come
  out with non-increasing values of the property \<open>ai_match_score\<close>, a record without
  one counting as 0; records with the same value keep the order they had in the input;
  and the output is a rearrangement of the input.
\<close>

theorem ai_match_score_sort_nonincreasing_stable:
  "sorted_wrt (\<lambda>a b. (case ai_match_score b of None \<Rightarrow> 0 | Some v \<Rightarrow> v)
                     \<le> (case ai_match_score a of None \<Rightarrow> 0 | Some v \<Rightarrow> v))
     (js_sort h (sort_comparator now ''ai_match_score'') xs)
   \<and> (\<forall>k. filter (\<lambda>opp. (case ai_match_score opp of None \<Rightarrow> 0 | Some v \<Rightarrow> v) = k)
             (js_sort h (sort_comparator now ''ai_match_score'') xs)
          = filter (\<lambda>opp. (case ai_match_score opp of None \<Rightarrow> 0 | Some v \<Rightarrow> v) = k) xs)
   \<and> mset (js_sort h (sort_comparator now ''ai_match_score'') xs) = mset xs"
proof -
  let ?key = "\<lambda>opp. - score_or_0 opp"
  have eq: "js_sort h (sort_comparator now ''ai_match_score'') xs = sort_key ?key xs"
    by (rule js_sort_sort_key) (rule precedes_score)
  have "sorted (map ?key (sort_key ?key xs))" by simp
  then have s: "sorted_wrt (\<lambda>a b. score_or_0 b \<le> score_or_0 a) (sort_key ?key xs)"
    by (simp add: sorted_wrt_map)
  have st: "filter (\<lambda>opp. score_or_0 opp = k) (sort_key ?key xs)
          = filter (\<lambda>opp. score_or_0 opp = k) xs" for k
    using sort_key_stable [of ?key "- k" xs] by simp
  from s st show ?thesis
    unfolding eq by (simp add: score_or_0_def)
qed

theorem ai_match_score_sort_nonincreasing_stable_witness:
  "js_sort LaterFirst (sort_comparator 0 ''ai_match_score'') score_example
     = [blank\<lparr>opp_id := 3, ai_match_score := Some 90\<rparr>,
        blank\<lparr>opp_id := 1, ai_match_score := Some 10\<rparr>,
        blank\<lparr>opp_id := 5, ai_match_score := Some 10\<rparr>,
        blank\<lparr>opp_id := 2\<rparr>,
        blank\<lparr>opp_id := 4, ai_match_score := Some 0\<rparr>,
        blank\<lparr>opp_id := 6\<rparr>]
   \<and> js_sort EarlierFirst (sort_comparator 0 ''ai_match_score'') score_example
     = js_sort LaterFirst (sort_comparator 0 ''ai_match_score'') score_example
   \<and> filter (\<lambda>opp. (case ai_match_score opp of None \<Rightarrow> 0 | Some v \<Rightarrow> v) = 0)
        (js_sort LaterFirst (sort_comparator 0 ''ai_match_score'') score_example)
     = [blank\<lparr>opp_id := 2\<rparr>, blank\<lparr>opp_id := 4, ai_match_score := Some 0\<rparr>,
        blank\<lparr>opp_id := 6\<rparr>]
   \<and> filter (\<lambda>opp. (case ai_match_score opp of None \<Rightarrow> 0 | Some v \<Rightarrow> v) = 10)
        (js_sort LaterFirst (sort_comparator 0 ''ai_match_score'') score_example)
     = [blank\<lparr>opp_id := 1, ai_match_score := Some 10\<rparr>,
        blank\<lparr>opp_id := 5, ai_match_score := Some 10\<rparr>]"
proof -
  have later: "js_sort LaterFirst (sort_comparator 0 ''ai_match_score'') score_example
     = [blank\<lparr>opp_id := 3, ai_match_score := Some 90\<rparr>,
        blank\<lparr>opp_id := 1, ai_match_score := Some 10\<rparr>,
        blank\<lparr>opp_id := 5, ai_match_score := Some 10\<rparr>,
        blank\<lparr>opp_id := 2\<rparr>,
        blank\<lparr>opp_id := 4, ai_match_score := Some 0\<rparr>,
        blank\<lparr>opp_id := 6\<rparr>]"
    by (simp add: score_example_def js_sort_def precedes_def sort_comparator_def
          score_or_0_def blank_def)
  have earlier: "js_sort EarlierFirst (sort_comparator 0 ''ai_match_score'') score_example
     = js_sort LaterFirst (sort_comparator 0 ''ai_match_score'') score_example"
    by (simp add: score_example_def js_sort_def precedes_def sort_comparator_def
          score_or_0_def blank_def)
  note stable = ai_match_score_sort_nonincreasing_stable
    [of LaterFirst 0 score_example, THEN conjunct2, THEN conjunct1, rule_format]
  have zero: "filter (\<lambda>opp. (case ai_match_score opp of None \<Rightarrow> 0 | Some v \<Rightarrow> v) = 0)
        (js_sort LaterFirst (sort_comparator 0 ''ai_match_score'') score_example)
     = [blank\<lparr>opp_id := 2\<rparr>, blank\<lparr>opp_id := 4, ai_match_score := Some 0\<rparr>,
        blank\<lparr>opp_id := 6\<rparr>]"
    unfolding stable [of 0] by (simp add: score_example_def blank_def)
  have ten: "filter (\<lambda>opp. (case ai_match_score opp of None \<Rightarrow> 0 | Some v \<Rightarrow> v) = 10)
        (js_sort LaterFirst (sort_comparator 0 ''ai_match_score'') score_example)
     = [blank\<lparr>opp_id := 1, ai_match_score := Some 10\<rparr>,
        blank\<lparr>opp_id := 5, ai_match_score := Some 10\<rparr>]"
    unfolding stable [of 10] by (simp add: score_example_def blank_def)
  from later earlier zero ten show ?thesis by (simp only: simp_thms)
qed

section \<open>Facts about the grouping\<close>

lemma group_opportunity_target:
  "group_opportunity opp g =
     (case target_bucket opp of None \<Rightarrow> Inl TypeError | Some b \<Rightarrow> Inr (push b opp g))"
  by (simp add: group_opportunity_def target_bucket_def split: property.splits)

lemma bucket_of_push:
  "bucket_of (push b opp g) b' = (if b' = b then bucket_of g b' @ [opp] else bucket_of g b')"
  by (cases b; cases b') simp_all

lemma forEach_group_Cons:
  "forEach group_opportunity (x # xs) g =
     (case target_bucket x of None \<Rightarrow> Inl TypeError
      | Some b \<Rightarrow> forEach group_opportunity xs (push b x g))"
  by (cases "target_bucket x") (simp_all add: group_opportunity_target [of x g])

lemma forEach_group_buckets:
  "forEach group_opportunity xs g = Inr g' \<Longrightarrow>
     bucket_of g' b = bucket_of g b @ filter (\<lambda>opp. target_bucket opp = Some b) xs"
proof (induction xs arbitrary: g)
  case Nil
  then show ?case by simp
next
  case (Cons x xs)
  then obtain c where c: "target_bucket x = Some c"
    by (cases "target_bucket x") (simp_all add: forEach_group_Cons del: forEach.simps)
  with Cons.prems have "forEach group_opportunity xs (push c x g) = Inr g'"
    by (simp add: forEach_group_Cons del: forEach.simps)
  from Cons.IH [OF this] c show ?case
    by (simp add: bucket_of_push)
qed

lemma forEach_group_all_placed:
  "forEach group_opportunity xs g = Inr g' \<Longrightarrow> opp \<in> set xs \<Longrightarrow> target_bucket opp \<noteq> None"
proof (induction xs arbitrary: g)
  case Nil
  then show ?case by simp
next
  case (Cons x xs)
  then show ?case
    by (cases "target_bucket x") (auto simp: forEach_group_Cons simp del: forEach.simps)
qed

lemma forEach_group_completes:
  "\<forall>opp\<in>set xs. target_bucket opp \<noteq> None \<Longrightarrow> \<exists>g'. forEach group_opportunity xs g = Inr g'"
proof (induction xs arbitrary: g)
  case Nil
  then show ?case by simp
next
  case (Cons x xs)
  then obtain c where "target_bucket x = Some c" by auto
  with Cons show ?case by (simp add: forEach_group_Cons del: forEach.simps)
qed

lemma forEach_group_throws:
  "\<exists>opp\<in>set xs. target_bucket opp = None \<Longrightarrow> forEach group_opportunity xs g = Inl TypeError"
proof (induction xs arbitrary: g)
  case Nil
  then show ?case by simp
next
  case (Cons x xs)
  then show ?case
    by (cases "target_bucket x") (simp_all add: forEach_group_Cons del: forEach.simps)
qed

lemma target_bucket_None:
  "target_bucket opp = None \<longleftrightarrow> (\<exists>k \<in> set object_prototype_keys. status opp = Some k)"
  by (cases "status opp")
     (auto simp: target_bucket_def statusGroups_get_def object_prototype_keys_def)

lemma target_bucket_Prospect:
  "target_bucket opp \<noteq> None \<Longrightarrow>
   target_bucket opp = Some Prospect \<longleftrightarrow>
     status opp \<notin> {Some ''accepted'', Some ''rejected'', Some ''applied'',
       Some ''interview_stage'', Some ''under_consideration'', Some ''offer_received'',
       Some ''closed''}"
  by (cases "status opp") (auto simp: target_bucket_def statusGroups_get_def split: if_splits)

lemma target_bucket_Closed:
  "target_bucket opp = Some Closed \<longleftrightarrow>
     status opp \<in> {Some ''accepted'', Some ''rejected'', Some ''closed''}"
  by (cases "status opp") (auto simp: target_bucket_def statusGroups_get_def split: if_splits)

lemma length_partition:
  "\<forall>opp\<in>set xs. target_bucket opp \<noteq> None \<Longrightarrow>
   length (filter (\<lambda>opp. target_bucket opp = Some Prospect) xs)
   + length (filter (\<lambda>opp. target_bucket opp = Some Applied) xs)
   + length (filter (\<lambda>opp. target_bucket opp = Some Interview_stage) xs)
   + length (filter (\<lambda>opp. target_bucket opp = Some Under_consideration) xs)
   + length (filter (\<lambda>opp. target_bucket opp = Some Offer_received) xs)
   + length (filter (\<lambda>opp. target_bucket opp = Some Closed) xs) = length xs"
proof (induction xs)
  case Nil
  then show ?case by simp
next
  case (Cons x xs)
  then obtain c where "target_bucket x = Some c" by auto
  with Cons show ?case by (cases c) simp_all
qed

lemma group_by_status_throws:
  "\<exists>opp\<in>set xs. target_bucket opp = None \<Longrightarrow> group_by_status xs = Inl TypeError"
  unfolding group_by_status_def by (rule forEach_group_throws)

text \<open>
  Where no status is a name inherited from \<open>Object.prototype\<close>, the grouping completes
  and is a partition: each bucket is the sublist of its records, the sizes add up to the
  length of the list, and a record is in one bucket only.
\<close>

lemma kanban_grouping_partitions:
  assumes "\<forall>opp\<in>set xs. \<forall>k\<in>set object_prototype_keys. status opp \<noteq> Some k"
  shows "\<exists>g. group_by_status xs = Inr g
           \<and> (\<forall>b. bucket_of g b = filter (\<lambda>opp. target_bucket opp = Some b) xs)
           \<and> length (prospect g) + length (applied g) + length (interview_stage g)
               + length (under_consideration g) + length (offer_received g)
               + length (closed g) = length xs
           \<and> (\<forall>opp\<in>set xs. \<exists>!b. opp \<in> set (bucket_of g b))"
proof -
  from assms have placed: "\<forall>opp\<in>set xs. target_bucket opp \<noteq> None"
    by (auto simp: target_bucket_None)
  then obtain g where run: "forEach group_opportunity xs empty_groups = Inr g"
    using forEach_group_completes by blast
  have buckets: "bucket_of g b = filter (\<lambda>opp. target_bucket opp = Some b) xs" for b
    using forEach_group_buckets [OF run, of b] by (cases b) (simp_all add: empty_groups_def)
  have sizes: "length (prospect g) + length (applied g) + length (interview_stage g)
               + length (under_consideration g) + length (offer_received g)
               + length (closed g) = length xs"
    using length_partition [OF placed]
      buckets [of Prospect] buckets [of Applied] buckets [of Interview_stage]
      buckets [of Under_consideration] buckets [of Offer_received] buckets [of Closed]
    by simp
  have once: "\<exists>!b. opp \<in> set (bucket_of g b)" if "opp \<in> set xs" for opp
  proof -
    from placed that obtain c where "target_bucket opp = Some c" by auto
    with that show ?thesis by (auto simp: buckets)
  qed
  from run buckets sizes once show ?thesis
    by (auto simp: group_by_status_def)
qed

section \<open>Kanban grouping: the claims\<close>

text \<open>
  C1. The claim is that grouping places every record of every list in exactly one of the
  six buckets. The callback tests \<open>statusGroups[opp.status]\<close> for truthiness, which also
  finds the members that the object literal inherits: for a record whose status is
  \<open>constructor\<close> the test succeeds, the member has no \<open>push\<close>, and the call throws. The
  grouping then places nothing, and \<open>renderOpportunities\<close> ends with the error.
\<close>

theorem kanban_grouping_throws_on_inherited_status:
  "group_by_status [blank\<lparr>opp_id := 1, status := Some ''applied''\<rparr>,
                    blank\<lparr>opp_id := 2, status := Some ''constructor''\<rparr>] = Inl TypeError
   \<and> snd (renderOpportunities LaterFirst 0
            (manager_of [blank\<lparr>opp_id := 1, status := Some ''applied''\<rparr>,
                         blank\<lparr>opp_id := 2, status := Some ''constructor''\<rparr>]
               ''all'' ''ai_match_score'')) = Inl TypeError"
  by (simp add: renderOpportunities_def manager_of_def js_sort_def precedes_def
        sort_comparator_def score_or_0_def group_by_status_def group_opportunity_def
        statusGroups_get_def object_prototype_keys_def empty_groups_def blank_def)

text \<open>
  C4, as stated, fails: a record whose status is the literal \<open>closed\<close> has none of the
  five working statuses and is neither accepted nor rejected, yet the lookup
  \<open>statusGroups[opp.status]\<close> finds the array of the closed bucket, and the record is
  pushed there and not to \<open>prospect\<close>.
\<close>

theorem closed_status_not_in_prospect:
  "status (blank\<lparr>status := Some ''closed''\<rparr>) \<notin>
     {Some ''prospect'', Some ''applied'', Some ''interview_stage'',
      Some ''under_consideration'', Some ''offer_received'', Some ''accepted'',
      Some ''rejected''}
   \<and> group_by_status [blank\<lparr>status := Some ''closed''\<rparr>]
       = Inr (empty_groups\<lparr>closed := [blank\<lparr>status := Some ''closed''\<rparr>]\<rparr>)
   \<and> prospect (empty_groups\<lparr>closed := [blank\<lparr>status := Some ''closed''\<rparr>]\<rparr>) = []"
  by (simp add: group_by_status_def group_opportunity_def statusGroups_get_def
        empty_groups_def blank_def)

text \<open>
  C4, amended. Whenever the grouping completes, the \<open>prospect\<close> bucket holds, in order,
  the records whose status is none of \<open>applied\<close>, \<open>interview_stage\<close>,
  \<open>under_consideration\<close>, \<open>offer_received\<close>, \<open>closed\<close>, \<open>accepted\<close> and \<open>rejected\<close>
  (so every unknown status falls into \<open>prospect\<close>), and the \<open>closed\<close> bucket holds the
  records whose status is \<open>accepted\<close>, \<open>rejected\<close> or the literal \<open>closed\<close>.
\<close>

theorem unknown_status_falls_into_prospect:
  assumes "group_by_status xs = Inr g"
  shows "prospect g = filter (\<lambda>opp. status opp \<notin> {Some ''accepted'', Some ''rejected'',
             Some ''applied'', Some ''interview_stage'', Some ''under_consideration'',
             Some ''offer_received'', Some ''closed''}) xs
       \<and> closed g = filter (\<lambda>opp. status opp \<in> {Some ''accepted'', Some ''rejected'',
             Some ''closed''}) xs"
proof -
  from assms have run: "forEach group_opportunity xs empty_groups = Inr g"
    by (simp add: group_by_status_def)
  have placed: "target_bucket opp \<noteq> None" if "opp \<in> set xs" for opp
    using forEach_group_all_placed [OF run that] .
  have "prospect g = filter (\<lambda>opp. target_bucket opp = Some Prospect) xs"
    using forEach_group_buckets [OF run, of Prospect] by (simp add: empty_groups_def)
  also have "\<dots> = filter (\<lambda>opp. status opp \<notin> {Some ''accepted'', Some ''rejected'',
             Some ''applied'', Some ''interview_stage'', Some ''under_consideration'',
             Some ''offer_received'', Some ''closed''}) xs"
    by (rule filter_cong [OF refl]) (use placed target_bucket_Prospect in blast)
  finally have p: "prospect g = filter (\<lambda>opp. status opp \<notin> {Some ''accepted'', Some ''rejected'',
             Some ''applied'', Some ''interview_stage'', Some ''under_consideration'',
             Some ''offer_received'', Some ''closed''}) xs" .
  have "closed g = filter (\<lambda>opp. target_bucket opp = Some Closed) xs"
    using forEach_group_buckets [OF run, of Closed] by (simp add: empty_groups_def)
  then have c: "closed g = filter (\<lambda>opp. status opp \<in> {Some ''accepted'', Some ''rejected'',
             Some ''closed''}) xs"
    by (simp only: target_bucket_Closed)
  from p c show ?thesis by simp
qed

theorem unknown_status_falls_into_prospect_witness:
  "group_by_status [blank\<lparr>opp_id := 1, status := Some ''legacy''\<rparr>,
                    blank\<lparr>opp_id := 2, status := Some ''accepted''\<rparr>,
                    blank\<lparr>opp_id := 3, status := Some ''closed''\<rparr>,
                    blank\<lparr>opp_id := 4\<rparr>]
     = Inr (empty_groups\<lparr>
         prospect := [blank\<lparr>opp_id := 1, status := Some ''legacy''\<rparr>, blank\<lparr>opp_id := 4\<rparr>],
         closed := [blank\<lparr>opp_id := 2, status := Some ''accepted''\<rparr>,
                    blank\<lparr>opp_id := 3, status := Some ''closed''\<rparr>]\<rparr>)
   \<and> prospect (empty_groups\<lparr>
         prospect := [blank\<lparr>opp_id := 1, status := Some ''legacy''\<rparr>, blank\<lparr>opp_id := 4\<rparr>],
         closed := [blank\<lparr>opp_id := 2, status := Some ''accepted''\<rparr>,
                    blank\<lparr>opp_id := 3, status := Some ''closed''\<rparr>]\<rparr>)
       = [blank\<lparr>opp_id := 1, status := Some ''legacy''\<rparr>, blank\<lparr>opp_id := 4\<rparr>]"
proof -
  have run: "group_by_status [blank\<lparr>opp_id := 1, status := Some ''legacy''\<rparr>,
                    blank\<lparr>opp_id := 2, status := Some ''accepted''\<rparr>,
                    blank\<lparr>opp_id := 3, status := Some ''closed''\<rparr>,
                    blank\<lparr>opp_id := 4\<rparr>]
     = Inr (empty_groups\<lparr>
         prospect := [blank\<lparr>opp_id := 1, status := Some ''legacy''\<rparr>, blank\<lparr>opp_id := 4\<rparr>],
         closed := [blank\<lparr>opp_id := 2, status := Some ''accepted''\<rparr>,
                    blank\<lparr>opp_id := 3, status := Some ''closed''\<rparr>]\<rparr>)"
    by (simp add: group_by_status_def group_opportunity_def statusGroups_get_def
          object_prototype_keys_def empty_groups_def blank_def)
  from unknown_status_falls_into_prospect [OF run] run show ?thesis
    by (simp add: blank_def)
qed

section \<open>Facts about rendering\<close>

lemma manager_of_simps:
  "the_opportunities (manager_of xs flt srt) = xs"
  "currentFilter (manager_of xs flt srt) = flt"
  "currentSort (manager_of xs flt srt) = srt"
  "opportunities (manager_of xs flt srt) = 0"
  "next_ref (manager_of xs flt srt) = 1"
  "editingOpportunity (manager_of xs flt srt) = None"
  by (simp_all add: manager_of_def the_opportunities_def)

lemma render_all:
  "currentFilter s = ''all'' \<Longrightarrow>
   renderOpportunities h now s =
     (s\<lparr>heap := (heap s)(opportunities s :=
          js_sort h (sort_comparator now (currentSort s)) (the_opportunities s))\<rparr>,
      group_by_status (js_sort h (sort_comparator now (currentSort s)) (the_opportunities s)))"
  by (simp add: renderOpportunities_def the_opportunities_def)

lemma render_filtered:
  "currentFilter s \<noteq> ''all'' \<Longrightarrow>
   renderOpportunities h now s =
     (s\<lparr>heap := (heap s)(next_ref s :=
          js_sort h (sort_comparator now (currentSort s))
            (filter (\<lambda>opp. opp_type opp = Some (currentFilter s)) (the_opportunities s))),
        next_ref := Suc (next_ref s)\<rparr>,
      group_by_status (js_sort h (sort_comparator now (currentSort s))
            (filter (\<lambda>opp. opp_type opp = Some (currentFilter s)) (the_opportunities s))))"
  by (simp add: renderOpportunities_def the_opportunities_def alloc_def)

lemma render_the_opportunities:
  "opportunities s < next_ref s \<Longrightarrow>
   the_opportunities (fst (renderOpportunities h now s)) =
     (if currentFilter s = ''all''
      then js_sort h (sort_comparator now (currentSort s)) (the_opportunities s)
      else the_opportunities s)"
  by (cases "currentFilter s = ''all''")
     (simp_all add: render_all render_filtered the_opportunities_def)

lemma set_js_sort: "set (js_sort h cmp xs) = set xs"
  using mset_js_sort [of h cmp xs] by (metis set_mset_mset)

lemma group_by_status_completes:
  "\<forall>opp\<in>set xs. target_bucket opp \<noteq> None \<Longrightarrow> \<exists>g. group_by_status xs = Inr g"
  unfolding group_by_status_def by (rule forEach_group_completes)

lemma render_completes:
  assumes "\<forall>opp\<in>set (the_opportunities s). target_bucket opp \<noteq> None"
  shows "\<exists>g. snd (renderOpportunities h now s) = Inr g"
proof (cases "currentFilter s = ''all''")
  case True
  then show ?thesis
    using assms by (simp add: render_all group_by_status_completes set_js_sort)
next
  case False
  then show ?thesis
    using assms by (simp add: render_filtered group_by_status_completes set_js_sort)
qed

section \<open>Sorting in place\<close>

text \<open>
  C10. With the filter \<open>all\<close>, \<open>filteredOpportunities\<close> is the array of
  \<open>this.opportunities\<close> itself, and the in-place sort reorders it: after rendering, the
  stored list is the sorted list, in the same array.
\<close>

theorem render_sorts_stored_list_in_place:
  assumes "currentFilter s = ''all''"
  shows "the_opportunities (fst (renderOpportunities h now s))
           = js_sort h (sort_comparator now (currentSort s)) (the_opportunities s)
       \<and> opportunities (fst (renderOpportunities h now s)) = opportunities s"
  using assms by (simp add: render_all the_opportunities_def)

theorem render_sorts_stored_list_in_place_witness:
  "currentFilter (manager_of [blank\<lparr>opp_id := 1, ai_match_score := Some 10\<rparr>,
                              blank\<lparr>opp_id := 2, ai_match_score := Some 90\<rparr>]
                    ''all'' ''ai_match_score'') = ''all''
   \<and> the_opportunities (manager_of [blank\<lparr>opp_id := 1, ai_match_score := Some 10\<rparr>,
                                    blank\<lparr>opp_id := 2, ai_match_score := Some 90\<rparr>]
                          ''all'' ''ai_match_score'')
      = [blank\<lparr>opp_id := 1, ai_match_score := Some 10\<rparr>,
         blank\<lparr>opp_id := 2, ai_match_score := Some 90\<rparr>]
   \<and> the_opportunities (fst (renderOpportunities LaterFirst 0
         (manager_of [blank\<lparr>opp_id := 1, ai_match_score := Some 10\<rparr>,
                      blank\<lparr>opp_id := 2, ai_match_score := Some 90\<rparr>]
            ''all'' ''ai_match_score'')))
      = [blank\<lparr>opp_id := 2, ai_match_score := Some 90\<rparr>,
         blank\<lparr>opp_id := 1, ai_match_score := Some 10\<rparr>]"
  using render_sorts_stored_list_in_place
    [of "manager_of [blank\<lparr>opp_id := 1, ai_match_score := Some 10\<rparr>,
                     blank\<lparr>opp_id := 2, ai_match_score := Some 90\<rparr>]
           ''all'' ''ai_match_score''" LaterFirst 0]
  by (simp add: manager_of_simps js_sort_def precedes_def
        sort_comparator_def score_or_0_def blank_def)

section \<open>Loading, status updates and saving\<close>

lemma load_success:
  "the_opportunities (fst (loadPipelineData h now (Inr execData) (Inr speakingData) s)) =
     (if currentFilter s = ''all''
      then js_sort h (sort_comparator now (currentSort s))
             (execData @ map speakingAsExec speakingData)
      else execData @ map speakingAsExec speakingData)"
  by (cases "currentFilter s = ''all''")
     (simp_all add: loadPipelineData_def alloc_def Let_def render_all render_filtered
        the_opportunities_def split: prod.splits)

lemma load_exec_failed:
  "loadPipelineData h now (Inl e) speakingResponse s
     = (s, [HttpGet ExecutiveOpportunities, load_failed])"
  by (simp add: loadPipelineData_def)

lemma load_first_effect:
  "\<exists>rest. snd (loadPipelineData h now execResponse speakingResponse s)
            = HttpGet ExecutiveOpportunities # rest"
  by (simp add: loadPipelineData_def Let_def split: sum.splits prod.splits)

lemma load_no_write:
  "e \<in> set (snd (loadPipelineData h now execResponse speakingResponse s)) \<Longrightarrow> \<not> is_write e"
  by (auto simp: loadPipelineData_def Let_def load_failed_def split: sum.splits prod.splits)

lemma speakingAsExec_fields:
  "opp_type (speakingAsExec opp) = Some ''speaking''"
  "company (speakingAsExec opp) = organizer opp"
  "compensation_range (speakingAsExec opp) = speaking_fee opp"
  "title (speakingAsExec opp) = title opp"
  "ai_match_score (speakingAsExec opp) = Some (score_or_0 opp)"
  by (simp_all add: speakingAsExec_def)

text \<open>
  C3. \<open>speakingAsExec\<close> tags a speaking record with the type \<open>speaking\<close> and copies
  \<open>organizer\<close> to \<open>company\<close> and \<open>speaking_fee\<close> to \<open>compensation_range\<close> (the
  properties that the cards show as organization and compensation). When both fetches
  succeed, the list that is stored and rendered is the generic collection followed by the
  projected speaking collection: as it is under a type filter, sorted in place under the
  filter \<open>all\<close>; in both cases nothing is dropped or merged with anything else.
\<close>

theorem speaking_records_projected_and_appended:
  "opp_type (speakingAsExec opp) = Some ''speaking''
   \<and> company (speakingAsExec opp) = organizer opp
   \<and> compensation_range (speakingAsExec opp) = speaking_fee opp
   \<and> the_opportunities (fst (loadPipelineData h now (Inr execData) (Inr speakingData) s))
       = (if currentFilter s = ''all''
          then js_sort h (sort_comparator now (currentSort s))
                 (execData @ map speakingAsExec speakingData)
          else execData @ map speakingAsExec speakingData)
   \<and> mset (the_opportunities (fst (loadPipelineData h now (Inr execData) (Inr speakingData) s)))
       = mset execData + mset (map speakingAsExec speakingData)"
  by (simp add: speakingAsExec_fields load_success mset_js_sort)

lemma speaking_projection_example:
  "speakingAsExec (blank\<lparr>organizer := Some ''Acme'', speaking_fee := Some ''$5k''\<rparr>)
     = blank\<lparr>organizer := Some ''Acme'', speaking_fee := Some ''$5k'',
             opp_type := Some ''speaking'', ai_match_score := Some 0,
             compensation_range := Some ''$5k'', company := Some ''Acme''\<rparr>"
  by (simp add: speakingAsExec_def blank_def score_or_0_def)

lemma update_put_failed:
  "updateOpportunityStatus h now i ty newStatus (Inl e) execReload speakingReload s
     = (fst (loadPipelineData h now execReload speakingReload s),
        [HttpPutStatus (status_endpoint i ty) (actualStatus newStatus),
         Notify ''Failed to update status'' ''error'']
        @ snd (loadPipelineData h now execReload speakingReload s))"
  by (simp add: updateOpportunityStatus_def update_failed_def case_prod_beta)

text \<open>
  C5. When the write of a status change fails, the local records are not touched: what
  the manager does is send the write, show the notification "Failed to update status",
  and run \<open>loadPipelineData\<close> on the unchanged state, which starts by fetching the
  collections again. If that reload fails at once, the state is the one before the
  request; if it succeeds, the records are those of the repository.
\<close>

theorem failed_status_write_forces_reload:
  assumes "putResponse = Inl e"
  shows "updateOpportunityStatus h now i ty newStatus putResponse execReload speakingReload s
           = (fst (loadPipelineData h now execReload speakingReload s),
              [HttpPutStatus (status_endpoint i ty) (actualStatus newStatus),
               Notify ''Failed to update status'' ''error'']
              @ snd (loadPipelineData h now execReload speakingReload s))
       \<and> (\<exists>rest. snd (loadPipelineData h now execReload speakingReload s)
                    = HttpGet ExecutiveOpportunities # rest)
       \<and> (\<forall>e'. execReload = Inl e' \<longrightarrow>
             fst (updateOpportunityStatus h now i ty newStatus putResponse execReload
                    speakingReload s) = s)
       \<and> (\<forall>d sp. execReload = Inr d \<and> speakingReload = Inr sp \<longrightarrow>
             mset (the_opportunities
                     (fst (updateOpportunityStatus h now i ty newStatus putResponse execReload
                             speakingReload s)))
               = mset (d @ map speakingAsExec sp))"
  using load_first_effect [of h now execReload speakingReload s]
  by (simp add: assms update_put_failed load_exec_failed load_success mset_js_sort)


lemma findIndex_Some:
  "findIndex P xs = Some n \<Longrightarrow> n < length xs \<and> P (xs ! n)"
proof (induction xs arbitrary: n)
  case Nil
  then show ?case by simp
next
  case (Cons x xs)
  then show ?case by (cases "P x") (auto simp: nth_Cons')
qed

lemma update_local_found:
  assumes "findIndex (\<lambda>opp. opp_id opp = i \<and> type_or_executive opp = ty) (the_opportunities s)
             = Some n"
  shows "the_opportunities (update_local i ty st s)
           = (the_opportunities s)[n := (the_opportunities s ! n)\<lparr>status := Some st\<rparr>]"
    and "opportunities (update_local i ty st s) = opportunities s"
    and "next_ref (update_local i ty st s) = next_ref s"
    and "currentFilter (update_local i ty st s) = currentFilter s"
    and "currentSort (update_local i ty st s) = currentSort s"
  using assms by (simp_all add: update_local_def the_opportunities_def Let_def)

lemma update_put_ok:
  "updateOpportunityStatus h now i ty newStatus (Inr u) execReload speakingReload s
     = (case snd (renderOpportunities h now (update_local i ty (actualStatus newStatus) s)) of
          Inl e \<Rightarrow>
            (fst (loadPipelineData h now execReload speakingReload
                    (fst (renderOpportunities h now
                            (update_local i ty (actualStatus newStatus) s)))),
             [HttpPutStatus (status_endpoint i ty) (actualStatus newStatus),
              Notify ''Failed to update status'' ''error'']
             @ snd (loadPipelineData h now execReload speakingReload
                      (fst (renderOpportunities h now
                              (update_local i ty (actualStatus newStatus) s)))))
        | Inr g \<Rightarrow>
            (fst (renderOpportunities h now (update_local i ty (actualStatus newStatus) s)),
             [HttpPutStatus (status_endpoint i ty) (actualStatus newStatus), ShowKanban g,
              Notify ''Status updated successfully'' ''success'']))"
  by (simp add: updateOpportunityStatus_def update_failed_def case_prod_beta Let_def
        split: sum.splits)

lemma update_effects:
  "\<exists>rest. snd (updateOpportunityStatus h now i ty newStatus putResponse execReload
                  speakingReload s)
            = HttpPutStatus (status_endpoint i ty) (actualStatus newStatus) # rest
          \<and> (\<forall>e\<in>set rest. \<not> is_write e)"
proof (cases putResponse)
  case (Inl e)
  then show ?thesis
    using load_no_write by (auto simp: update_put_failed)
next
  case (Inr u)
  then show ?thesis
    using load_no_write by (auto simp: update_put_ok split: sum.splits)
qed

text \<open>
  C2. For the target bucket \<open>closed\<close>, the one status write that is sent goes to the
  endpoint of the record's type and carries the status \<open>rejected\<close>. After a successful
  write, the record found for the id and type has the status \<open>rejected\<close> in the local list
  (shown here for a list that the grouping can render), which is otherwise as before,
  sorted in place under the filter \<open>all\<close>.
\<close>

theorem closed_bucket_persists_rejected:
  "(\<exists>rest. snd (updateOpportunityStatus h now i ty ''closed'' putResponse execReload
                   speakingReload s)
             = HttpPutStatus (status_endpoint i ty) ''rejected'' # rest)
   \<and> (\<forall>ep st. HttpPutStatus ep st \<in> set (snd (updateOpportunityStatus h now i ty ''closed''
                                                  putResponse execReload speakingReload s))
          \<longrightarrow> ep = status_endpoint i ty \<and> st = ''rejected'')
   \<and> (putResponse = Inr u
        \<and> opportunities s < next_ref s
        \<and> (\<forall>opp\<in>set (the_opportunities s). \<forall>k\<in>set object_prototype_keys. status opp \<noteq> Some k)
        \<and> findIndex (\<lambda>opp. opp_id opp = i \<and> type_or_executive opp = ty) (the_opportunities s)
            = Some n
      \<longrightarrow> the_opportunities (fst (updateOpportunityStatus h now i ty ''closed'' putResponse
                                     execReload speakingReload s))
            = (if currentFilter s = ''all''
               then js_sort h (sort_comparator now (currentSort s))
                      ((the_opportunities s)
                         [n := (the_opportunities s ! n)\<lparr>status := Some ''rejected''\<rparr>])
               else (the_opportunities s)
                      [n := (the_opportunities s ! n)\<lparr>status := Some ''rejected''\<rparr>]))"
proof -
  let ?run = "updateOpportunityStatus h now i ty ''closed'' putResponse execReload
                speakingReload s"
  obtain rest where rest: "snd ?run = HttpPutStatus (status_endpoint i ty) ''rejected'' # rest"
    and quiet: "\<forall>e\<in>set rest. \<not> is_write e"
    using update_effects [of h now i ty "''closed''" putResponse execReload speakingReload s]
    by (auto simp: actualStatus_def)
  have writes: "ep = status_endpoint i ty \<and> st = ''rejected''"
    if "HttpPutStatus ep st \<in> set (snd ?run)" for ep st
    using that rest quiet by auto
  have local: "the_opportunities (fst ?run)
            = (if currentFilter s = ''all''
               then js_sort h (sort_comparator now (currentSort s))
                      ((the_opportunities s)
                         [n := (the_opportunities s ! n)\<lparr>status := Some ''rejected''\<rparr>])
               else (the_opportunities s)
                      [n := (the_opportunities s ! n)\<lparr>status := Some ''rejected''\<rparr>])"
    if ok: "putResponse = Inr u" and wf: "opportunities s < next_ref s"
      and plain: "\<forall>opp\<in>set (the_opportunities s). \<forall>k\<in>set object_prototype_keys. status opp \<noteq> Some k"
      and found: "findIndex (\<lambda>opp. opp_id opp = i \<and> type_or_executive opp = ty)
                    (the_opportunities s) = Some n"
  proof -
    let ?s1 = "update_local i ty ''rejected'' s"
    let ?y = "(the_opportunities s ! n)\<lparr>status := Some ''rejected''\<rparr>"
    note upd = update_local_found [OF found, of "''rejected''"]
    have "target_bucket opp \<noteq> None" if "opp \<in> set (the_opportunities ?s1)" for opp
    proof -
      from that have "opp = ?y \<or> opp \<in> set (the_opportunities s)"
        using set_update_subset_insert [of "the_opportunities s" n ?y] by (auto simp: upd(1))
      then show ?thesis
      proof
        assume "opp = ?y"
        then show ?thesis by (simp add: target_bucket_def)
      next
        assume "opp \<in> set (the_opportunities s)"
        with plain show ?thesis by (auto simp: target_bucket_None)
      qed
    qed
    then obtain g where g: "snd (renderOpportunities h now ?s1) = Inr g"
      using render_completes [of ?s1 h now] by blast
    have "fst ?run = fst (renderOpportunities h now ?s1)"
      using ok g by (simp add: update_put_ok actualStatus_def)
    then show ?thesis
      using wf by (simp add: render_the_opportunities upd)
  qed
  from rest writes local show ?thesis by blast
qed


lemma save_effects_create:
  assumes "editingOpportunity s = None"
  shows "\<exists>rest. snd (saveOpportunity h now formData scoreResponse writeResponse execReload
                        speakingReload s)
            = HttpPostScore (opp_type formData) (requirements formData)
              # HttpPostForm
                  (if opp_type formData = Some ''speaking''
                   then SpeakingOpportunities else ExecutiveOpportunities)
                  (formData\<lparr>ai_match_score :=
                     (case scoreResponse of Inl e \<Rightarrow> Some 50 | Inr v \<Rightarrow> v)\<rparr>)
              # rest
          \<and> (\<forall>e\<in>set rest. \<not> is_write e)"
  using assms load_no_write
  by (cases writeResponse) (auto simp: saveOpportunity_def Let_def case_prod_beta)

lemma save_effects_edit:
  assumes "editingOpportunity s = Some editing"
  shows "\<exists>rest. snd (saveOpportunity h now formData scoreResponse writeResponse execReload
                        speakingReload s)
            = HttpPutForm
                (if opp_type editing = Some ''speaking''
                 then SpeakingOpportunity (opp_id editing)
                 else ExecutiveOpportunity (opp_id editing))
                formData
              # rest
          \<and> (\<forall>e\<in>set rest. \<not> is_write e)"
  using assms load_no_write
  by (cases writeResponse) (auto simp: saveOpportunity_def Let_def case_prod_beta)

text \<open>
  C6. On the creation path, when the scoring call fails, the form is posted with
  \<open>ai_match_score\<close> 50, and no form is posted with another score. On the edit path no
  scoring call is made; nor does a status update or a load make one.
\<close>

theorem scoring_failure_defaults_to_50:
  "(editingOpportunity s = None \<and> scoreResponse = Inl e \<longrightarrow>
      (\<exists>ep rest. snd (saveOpportunity h now formData scoreResponse writeResponse execReload
                        speakingReload s)
                    = HttpPostScore (opp_type formData) (requirements formData)
                      # HttpPostForm ep (formData\<lparr>ai_match_score := Some 50\<rparr>) # rest)
      \<and> (\<forall>ep fd. HttpPostForm ep fd \<in> set (snd (saveOpportunity h now formData scoreResponse
                                                   writeResponse execReload speakingReload s))
            \<longrightarrow> ai_match_score fd = Some 50))
   \<and> (editingOpportunity s = Some editing \<longrightarrow>
        (\<forall>ty rq. HttpPostScore ty rq \<notin> set (snd (saveOpportunity h now formData scoreResponse
                                                   writeResponse execReload speakingReload s))))
   \<and> (\<forall>ty rq. HttpPostScore ty rq \<notin> set (snd (updateOpportunityStatus h now i ty' newStatus
                                                 putResponse execReload speakingReload s))
              \<and> HttpPostScore ty rq \<notin> set (snd (loadPipelineData h now execReload
                                                   speakingReload s)))"
proof -
  let ?save = "snd (saveOpportunity h now formData scoreResponse writeResponse execReload
                      speakingReload s)"
  have create: "(\<exists>ep rest. ?save = HttpPostScore (opp_type formData) (requirements formData)
                      # HttpPostForm ep (formData\<lparr>ai_match_score := Some 50\<rparr>) # rest)
      \<and> (\<forall>ep fd. HttpPostForm ep fd \<in> set ?save \<longrightarrow> ai_match_score fd = Some 50)"
    if "editingOpportunity s = None" and "scoreResponse = Inl e"
    using save_effects_create [OF that(1), of h now formData scoreResponse writeResponse
        execReload speakingReload] that(2)
    by fastforce
  have edit: "HttpPostScore ty rq \<notin> set ?save" if "editingOpportunity s = Some editing" for ty rq
    using save_effects_edit [OF that, of h now formData scoreResponse writeResponse
        execReload speakingReload]
    by fastforce
  have other: "HttpPostScore ty rq \<notin> set (snd (updateOpportunityStatus h now i ty' newStatus
                                                 putResponse execReload speakingReload s))
              \<and> HttpPostScore ty rq \<notin> set (snd (loadPipelineData h now execReload
                                                   speakingReload s))" for ty rq
    using update_effects [of h now i ty' newStatus putResponse execReload speakingReload s]
      load_no_write [of "HttpPostScore ty rq" h now execReload speakingReload s]
    by fastforce
  from create edit other show ?thesis by blast
qed


theorem closed_bucket_persists_rejected_witness:
  "opportunities (manager_of [blank\<lparr>opp_id := 7, opp_type := Some ''advisor'',
                                     status := Some ''offer_received''\<rparr>]
                    ''all'' ''ai_match_score'')
     < next_ref (manager_of [blank\<lparr>opp_id := 7, opp_type := Some ''advisor'',
                                     status := Some ''offer_received''\<rparr>]
                    ''all'' ''ai_match_score'')
   \<and> findIndex (\<lambda>opp. opp_id opp = 7 \<and> type_or_executive opp = ''advisor'')
        (the_opportunities (manager_of [blank\<lparr>opp_id := 7, opp_type := Some ''advisor'',
                                               status := Some ''offer_received''\<rparr>]
                              ''all'' ''ai_match_score'')) = Some 0
   \<and> HttpPutStatus (ExecutiveOpportunityStatus 7) ''rejected''
       \<in> set (snd (updateOpportunityStatus LaterFirst 0 7 ''advisor'' ''closed'' (Inr ())
                      (Inl RequestFailed) (Inl RequestFailed)
                      (manager_of [blank\<lparr>opp_id := 7, opp_type := Some ''advisor'',
                                          status := Some ''offer_received''\<rparr>]
                         ''all'' ''ai_match_score'')))
   \<and> the_opportunities
        (fst (updateOpportunityStatus LaterFirst 0 7 ''advisor'' ''closed'' (Inr ())
                (Inl RequestFailed) (Inl RequestFailed)
                (manager_of [blank\<lparr>opp_id := 7, opp_type := Some ''advisor'',
                                    status := Some ''offer_received''\<rparr>]
                   ''all'' ''ai_match_score'')))
       = [blank\<lparr>opp_id := 7, opp_type := Some ''advisor'', status := Some ''rejected''\<rparr>]"
proof -
  let ?r = "blank\<lparr>opp_id := 7, opp_type := Some ''advisor'', status := Some ''offer_received''\<rparr>"
  let ?s0 = "manager_of [?r] ''all'' ''ai_match_score''"
  have wf: "opportunities ?s0 < next_ref ?s0"
    by (simp add: manager_of_simps)
  have plain: "\<forall>opp\<in>set (the_opportunities ?s0). \<forall>k\<in>set object_prototype_keys. status opp \<noteq> Some k"
    by (simp add: manager_of_simps object_prototype_keys_def blank_def)
  have found: "findIndex (\<lambda>opp. opp_id opp = 7 \<and> type_or_executive opp = ''advisor'')
                 (the_opportunities ?s0) = Some 0"
    by (simp add: manager_of_simps type_or_executive_def blank_def)
  note inst = closed_bucket_persists_rejected [where h = LaterFirst and now = 0 and i = 7 and ty = "''advisor''"
      and putResponse = "Inr ()" and execReload = "Inl RequestFailed"
      and speakingReload = "Inl RequestFailed" and s = ?s0 and u = "()" and n = 0]
  from inst have put: "HttpPutStatus (ExecutiveOpportunityStatus 7) ''rejected''
       \<in> set (snd (updateOpportunityStatus LaterFirst 0 7 ''advisor'' ''closed'' (Inr ())
                      (Inl RequestFailed) (Inl RequestFailed) ?s0))"
    by (auto simp: status_endpoint_def)
  from inst wf plain found
  have "the_opportunities
        (fst (updateOpportunityStatus LaterFirst 0 7 ''advisor'' ''closed'' (Inr ())
                (Inl RequestFailed) (Inl RequestFailed) ?s0))
       = js_sort LaterFirst (sort_comparator 0 ''ai_match_score'')
           [?r\<lparr>status := Some ''rejected''\<rparr>]"
    by (simp add: manager_of_simps)
  then have local: "the_opportunities
        (fst (updateOpportunityStatus LaterFirst 0 7 ''advisor'' ''closed'' (Inr ())
                (Inl RequestFailed) (Inl RequestFailed) ?s0))
       = [blank\<lparr>opp_id := 7, opp_type := Some ''advisor'', status := Some ''rejected''\<rparr>]"
    by (simp add: js_sort_def blank_def)
  from wf found put local show ?thesis by simp
qed

theorem failed_status_write_forces_reload_witness:
  "updateOpportunityStatus LaterFirst 0 7 ''advisor'' ''closed'' (Inl RequestFailed)
     (Inl RequestFailed) (Inl RequestFailed)
     (manager_of [blank\<lparr>opp_id := 7, opp_type := Some ''advisor'',
                         status := Some ''offer_received''\<rparr>] ''all'' ''ai_match_score'')
   = (manager_of [blank\<lparr>opp_id := 7, opp_type := Some ''advisor'',
                         status := Some ''offer_received''\<rparr>] ''all'' ''ai_match_score'',
      [HttpPutStatus (ExecutiveOpportunityStatus 7) ''rejected'',
       Notify ''Failed to update status'' ''error'',
       HttpGet ExecutiveOpportunities,
       Notify ''Failed to load pipeline data'' ''error''])
   \<and> mset (the_opportunities (fst (updateOpportunityStatus LaterFirst 0 7 ''advisor'' ''closed''
        (Inl RequestFailed)
        (Inr [blank\<lparr>opp_id := 7, opp_type := Some ''advisor'', status := Some ''applied''\<rparr>])
        (Inr [])
        (manager_of [blank\<lparr>opp_id := 7, opp_type := Some ''advisor'',
                         status := Some ''offer_received''\<rparr>] ''all'' ''ai_match_score''))))
     = {#blank\<lparr>opp_id := 7, opp_type := Some ''advisor'', status := Some ''applied''\<rparr>#}"
proof -
  let ?s0 = "manager_of [blank\<lparr>opp_id := 7, opp_type := Some ''advisor'',
                         status := Some ''offer_received''\<rparr>] ''all'' ''ai_match_score''"
  let ?fresh = "blank\<lparr>opp_id := 7, opp_type := Some ''advisor'', status := Some ''applied''\<rparr>"
  have failed: "Inl RequestFailed = (Inl RequestFailed :: js_error + unit)" by simp
  from failed_status_write_forces_reload [OF failed, where h = LaterFirst and now = 0 and i = 7 and ty = "''advisor''"
      and newStatus = "''closed''" and execReload = "Inl RequestFailed"
      and speakingReload = "Inl RequestFailed" and s = ?s0]
  have a: "updateOpportunityStatus LaterFirst 0 7 ''advisor'' ''closed'' (Inl RequestFailed)
             (Inl RequestFailed) (Inl RequestFailed) ?s0
           = (?s0, [HttpPutStatus (ExecutiveOpportunityStatus 7) ''rejected'',
                    Notify ''Failed to update status'' ''error'',
                    HttpGet ExecutiveOpportunities,
                    Notify ''Failed to load pipeline data'' ''error''])"
    by (simp add: load_exec_failed load_failed_def status_endpoint_def actualStatus_def)
  from failed_status_write_forces_reload [OF failed, where h = LaterFirst and now = 0 and i = 7 and ty = "''advisor''"
      and newStatus = "''closed''" and execReload = "Inr [?fresh]"
      and speakingReload = "Inr []" and s = ?s0]
  have b: "mset (the_opportunities (fst (updateOpportunityStatus LaterFirst 0 7 ''advisor''
             ''closed'' (Inl RequestFailed) (Inr [?fresh]) (Inr []) ?s0)))
           = mset ([?fresh] @ map speakingAsExec [])"
    by blast
  from a b show ?thesis by simp
qed

theorem scoring_failure_defaults_to_50_witness:
  "editingOpportunity (manager_of [] ''all'' ''ai_match_score'') = None
   \<and> (\<exists>ep. HttpPostForm ep (blank\<lparr>opp_type := Some ''advisor'', ai_match_score := Some 50\<rparr>)
         \<in> set (snd (saveOpportunity LaterFirst 0 (blank\<lparr>opp_type := Some ''advisor''\<rparr>)
                        (Inl RequestFailed) (Inr ()) (Inl RequestFailed) (Inl RequestFailed)
                        (manager_of [] ''all'' ''ai_match_score''))))
   \<and> editingOpportunity
        ((manager_of [] ''all'' ''ai_match_score'')\<lparr>editingOpportunity := Some blank\<rparr>)
       = Some blank
   \<and> HttpPostScore (Some ''advisor'') []
       \<notin> set (snd (saveOpportunity LaterFirst 0 (blank\<lparr>opp_type := Some ''advisor''\<rparr>)
                      (Inl RequestFailed) (Inr ()) (Inl RequestFailed) (Inl RequestFailed)
                      ((manager_of [] ''all'' ''ai_match_score'')
                         \<lparr>editingOpportunity := Some blank\<rparr>)))"
proof -
  let ?fd = "blank\<lparr>opp_type := Some ''advisor''\<rparr>"
  let ?s0 = "manager_of [] ''all'' ''ai_match_score''"
  let ?s1 = "?s0\<lparr>editingOpportunity := Some blank\<rparr>"
  have new: "editingOpportunity ?s0 = None" by (simp add: manager_of_simps)
  have old: "editingOpportunity ?s1 = Some blank" by simp
  from new scoring_failure_defaults_to_50 [where s = ?s0 and scoreResponse = "Inl RequestFailed" and e = RequestFailed
      and h = LaterFirst and now = 0 and formData = ?fd and writeResponse = "Inr ()"
      and execReload = "Inl RequestFailed" and speakingReload = "Inl RequestFailed"
      and i = 0 and ty' = "[]" and newStatus = "[]" and putResponse = "Inr ()"]
  have a: "\<exists>ep. HttpPostForm ep (blank\<lparr>opp_type := Some ''advisor'', ai_match_score := Some 50\<rparr>)
         \<in> set (snd (saveOpportunity LaterFirst 0 ?fd
                        (Inl RequestFailed) (Inr ()) (Inl RequestFailed) (Inl RequestFailed) ?s0))"
    by auto
  from old scoring_failure_defaults_to_50 [where s = ?s1 and editing = blank and scoreResponse = "Inl RequestFailed"
      and h = LaterFirst and now = 0 and formData = ?fd and writeResponse = "Inr ()"
      and execReload = "Inl RequestFailed" and speakingReload = "Inl RequestFailed"
      and i = 0 and ty' = "[]" and newStatus = "[]" and putResponse = "Inr ()"]
  have b: "HttpPostScore (Some ''advisor'') []
       \<notin> set (snd (saveOpportunity LaterFirst 0 ?fd
                      (Inl RequestFailed) (Inr ()) (Inl RequestFailed) (Inl RequestFailed) ?s1))"
    by blast
  from new old a b show ?thesis by simp
qed

section \<open>The overall conversion and the success rate of the summary cards\<close>

lemma accepted_have_left_prospect:
  "length (filter (\<lambda>opp. status opp = Some ''accepted'') xs)
     \<le> length (filter (\<lambda>opp. status opp \<noteq> Some ''prospect'') xs)"
  by (induction xs) auto

text \<open>
  C9. The overall conversion is the number of accepted records over the number of records
  that have left the prospect stage, and 0 when no record has; it lies between 0 and 1; and
  for ten records of which six have left the prospect stage and one is accepted it is 1/6,
  not 1/10.
\<close>

theorem overall_conversion_over_records_past_prospect:
  "(length (filter (\<lambda>opp. status opp \<noteq> Some ''prospect'') xs) \<noteq> 0 \<longrightarrow>
      overall_conversion xs
        = real (length (filter (\<lambda>opp. status opp = Some ''accepted'') xs))
          / real (length (filter (\<lambda>opp. status opp \<noteq> Some ''prospect'') xs)))
   \<and> (length (filter (\<lambda>opp. status opp \<noteq> Some ''prospect'') xs) = 0 \<longrightarrow>
        overall_conversion xs = 0)
   \<and> (length xs = 10
        \<and> length (filter (\<lambda>opp. status opp \<noteq> Some ''prospect'') xs) = 6
        \<and> length (filter (\<lambda>opp. status opp = Some ''accepted'') xs) = 1 \<longrightarrow>
        overall_conversion xs = 1 / 6 \<and> overall_conversion xs \<noteq> 1 / 10)
   \<and> 0 \<le> overall_conversion xs \<and> overall_conversion xs \<le> 1"
proof -
  let ?a = "length (filter (\<lambda>opp. status opp = Some ''accepted'') xs)"
  let ?n = "length (filter (\<lambda>opp. status opp \<noteq> Some ''prospect'') xs)"
  have le: "real ?a \<le> real ?n"
    using accepted_have_left_prospect [of xs] by simp
  have upper: "overall_conversion xs \<le> 1"
  proof (cases "?n = 0")
    case True
    then show ?thesis by (simp add: overall_conversion_def)
  next
    case False
    then have "0 < real ?n" by simp
    with le have "real ?a / real ?n \<le> 1" by (simp add: divide_le_eq)
    with False show ?thesis by (simp add: overall_conversion_def)
  qed
  have lower: "0 \<le> overall_conversion xs"
    by (simp add: overall_conversion_def)
  from upper lower show ?thesis
    by (simp add: overall_conversion_def)
qed

theorem overall_conversion_over_records_past_prospect_witness:
  "length funnel_scenario = 10
   \<and> length (filter (\<lambda>opp. status opp \<noteq> Some ''prospect'') funnel_scenario) = 6
   \<and> length (filter (\<lambda>opp. status opp = Some ''accepted'') funnel_scenario) = 1
   \<and> overall_conversion funnel_scenario = 1 / 6
   \<and> overall_conversion funnel_scenario \<noteq> 1 / 10
   \<and> length (filter (\<lambda>opp. status opp \<noteq> Some ''prospect'')
               [blank\<lparr>opp_id := 1, status := Some ''prospect''\<rparr>]) = 0
   \<and> overall_conversion [blank\<lparr>opp_id := 1, status := Some ''prospect''\<rparr>] = 0"
proof -
  have ten: "length funnel_scenario = 10"
    and six: "length (filter (\<lambda>opp. status opp \<noteq> Some ''prospect'') funnel_scenario) = 6"
    and one: "length (filter (\<lambda>opp. status opp = Some ''accepted'') funnel_scenario) = 1"
    by (simp_all add: funnel_scenario_def blank_def)
  have none: "length (filter (\<lambda>opp. status opp \<noteq> Some ''prospect'')
               [blank\<lparr>opp_id := 1, status := Some ''prospect''\<rparr>]) = 0"
    by simp
  from overall_conversion_over_records_past_prospect [of funnel_scenario] ten six one
  have scenario: "overall_conversion funnel_scenario = 1 / 6
                  \<and> overall_conversion funnel_scenario \<noteq> 1 / 10"
    by blast
  from overall_conversion_over_records_past_prospect
         [of "[blank\<lparr>opp_id := 1, status := Some ''prospect''\<rparr>]"] none
  have empty: "overall_conversion [blank\<lparr>opp_id := 1, status := Some ''prospect''\<rparr>] = 0"
    by blast
  from ten six one none scenario empty show ?thesis by (simp only: simp_thms)
qed

text \<open>
  The success rate that \<open>updateSummaryCards\<close> writes to the summary cards is another
  figure: the accepted records over all records, as a rounded percentage. On the scenario
  above it is 10; with 23 records accepted of 40 it is 57, the product being the double
  just below 57.5; with 1 accepted of 8 it is 13, the product being 12.5.
\<close>

lemma bit_length_values:
  "bit_length (Suc 0) = 1" "bit_length 8 = 4" "bit_length 10 = 4" "bit_length 23 = 5"
  "bit_length 40 = 6"
  "bit_length 720575940379279400 = 60"
  "bit_length 517913957147607000 = 59"
  "bit_length 450359962737049600 = 59"
  by (simp_all add: bit_length.simps)

lemma double_quotient_values:
  "double_quotient (Suc 0) 10 = (7205759403792794, 56)"
  "double_quotient 23 40 = (5179139571476070, 53)"
  "double_quotient (Suc 0) 8 = (4503599627370496, 55)"
  by (simp_all add: double_quotient_def round_half_even_def Let_def bit_length_values)

lemma double_times_100_values:
  "double_times_100 (7205759403792794, 56) = (5629499534213120, 49)"
  "double_times_100 (5179139571476070, 53) = (8092405580431359, 47)"
  "double_times_100 (4503599627370496, 55) = (7036874417766400, 49)"
  by (simp_all add: double_times_100_def round_half_even_def Let_def bit_length_values)

lemma Math_round_values:
  "Math_round (5629499534213120, 49) = 10"
  "Math_round (8092405580431359, 47) = 57"
  "Math_round (7036874417766400, 49) = 13"
  by (simp_all add: Math_round_def)

lemma summary_card_success_rate_examples:
  "successRate (updateSummaryCards funnel_scenario) = 10"
  "Math_round (double_times_100 (double_quotient 23 40)) = 57"
  "Math_round (double_times_100 (double_quotient 1 8)) = 13"
  "successRate (updateSummaryCards []) = 0"
proof -
  have counts: "count_status ''accepted'' funnel_scenario = Suc 0"
    "length funnel_scenario = 10"
    by (simp_all add: count_status_def funnel_scenario_def blank_def)
  show "successRate (updateSummaryCards funnel_scenario) = 10"
    by (simp add: updateSummaryCards_def counts double_quotient_values
          double_times_100_values Math_round_values)
  show "Math_round (double_times_100 (double_quotient 23 40)) = 57"
    by (simp add: double_quotient_values double_times_100_values Math_round_values)
  show "Math_round (double_times_100 (double_quotient 1 8)) = 13"
    by (simp add: double_quotient_values double_times_100_values Math_round_values)
  show "successRate (updateSummaryCards []) = 0"
    by (simp add: updateSummaryCards_def)
qed

section \<open>Sorting by \<open>deadline\<close>\<close>

text \<open>
  On an engine that hands the later element first, the comparator acts as the strict
  order of \<open>deadline_key\<close>, and the sort is the stable sort by that key. On an engine
  that hands the earlier element first, the dated records come out the same way, but the
  records without a deadline come out in reverse.
\<close>

lemma precedes_deadline_LaterFirst:
  "precedes LaterFirst (sort_comparator now ''deadline'') later earlier
     \<longleftrightarrow> deadline_key later < deadline_key earlier"
  by (auto simp: precedes_def sort_comparator_def deadline_key_def split: option.splits)

lemma deadline_sort_LaterFirst:
  "js_sort LaterFirst (sort_comparator now ''deadline'') xs = sort_key deadline_key xs"
  by (rule js_sort_sort_key) (rule precedes_deadline_LaterFirst)

lemma deadline_sort_holds_LaterFirst:
  "sorted (map deadline_key (js_sort LaterFirst (sort_comparator now ''deadline'') xs))
   \<and> (\<forall>k. filter (\<lambda>opp. deadline opp = k)
             (js_sort LaterFirst (sort_comparator now ''deadline'') xs)
          = filter (\<lambda>opp. deadline opp = k) xs)"
proof -
  have "filter (\<lambda>opp. deadline opp = k) (sort_key deadline_key xs)
          = filter (\<lambda>opp. deadline opp = k) xs" for k
  proof -
    let ?k = "case k of None \<Rightarrow> (True, 0) | Some d \<Rightarrow> (False, d)"
    have "(deadline opp = k) = (deadline_key opp = ?k)" for opp
      by (auto simp: deadline_key_def split: option.splits)
    then show ?thesis
      using sort_key_stable [of deadline_key ?k xs] by simp
  qed
  then show ?thesis by (simp add: deadline_sort_LaterFirst)
qed

lemma precedes_deadline_EarlierFirst:
  "precedes EarlierFirst (sort_comparator now ''deadline'') later earlier
     \<longleftrightarrow> (deadline earlier = None
          \<or> (deadline later \<noteq> None \<and> deadline_time later < deadline_time earlier))"
  by (auto simp: precedes_def sort_comparator_def deadline_time_def split: option.splits)

lemma insert_undated_EarlierFirst:
  "deadline x = None \<Longrightarrow>
   js_insert EarlierFirst (sort_comparator now ''deadline'') x ys = ys @ [x]"
  by (induction ys) (simp_all add: precedes_deadline_EarlierFirst)

lemma insert_dated_EarlierFirst:
  "deadline x = Some d \<Longrightarrow> \<forall>y\<in>set ds. deadline y \<noteq> None \<Longrightarrow> \<forall>y\<in>set us. deadline y = None \<Longrightarrow>
   js_insert EarlierFirst (sort_comparator now ''deadline'') x (ds @ us)
     = insort_key deadline_time x ds @ us"
proof (induction ds)
  case Nil
  then show ?case by (cases us) (simp_all add: precedes_deadline_EarlierFirst)
next
  case (Cons y ds)
  then show ?case by (auto simp: precedes_deadline_EarlierFirst)
qed

lemma deadline_sort_EarlierFirst:
  "js_sort EarlierFirst (sort_comparator now ''deadline'') xs
     = sort_key deadline_time (filter (\<lambda>opp. deadline opp \<noteq> None) xs)
       @ rev (filter (\<lambda>opp. deadline opp = None) xs)"
proof (induction xs)
  case Nil
  then show ?case by (simp add: js_sort_def)
next
  case (Cons x xs)
  have step: "js_sort EarlierFirst (sort_comparator now ''deadline'') (x # xs)
     = js_insert EarlierFirst (sort_comparator now ''deadline'') x
         (js_sort EarlierFirst (sort_comparator now ''deadline'') xs)"
    by (simp add: js_sort_def)
  show ?case
  proof (cases "deadline x")
    case None
    then show ?thesis
      unfolding step Cons.IH by (simp add: insert_undated_EarlierFirst)
  next
    case (Some d)
    then show ?thesis
      unfolding step Cons.IH
      by (subst insert_dated_EarlierFirst [OF Some]) (simp_all add: sort_key_def [symmetric])
  qed
qed

text \<open>
  C7. The claim is that a sort by \<open>deadline\<close> keeps the input order of records with
  equal keys, two records without a deadline included. The comparator returns 1 as soon
  as its first argument has no deadline, so for two such records it answers 1 whichever
  way round it is asked: the case that both deadlines are missing is not told apart. On
  an engine that hands the earlier element first, the two records are swapped, here in
  the stored list itself; on an engine that hands the later element first they stay.
\<close>

theorem deadline_sort_swaps_records_without_deadline:
  "sort_comparator 0 ''deadline'' (blank\<lparr>opp_id := 1\<rparr>) (blank\<lparr>opp_id := 2\<rparr>) = 1
   \<and> sort_comparator 0 ''deadline'' (blank\<lparr>opp_id := 2\<rparr>) (blank\<lparr>opp_id := 1\<rparr>) = 1
   \<and> js_sort EarlierFirst (sort_comparator 0 ''deadline'')
        [blank\<lparr>opp_id := 1\<rparr>, blank\<lparr>opp_id := 2\<rparr>]
       = [blank\<lparr>opp_id := 2\<rparr>, blank\<lparr>opp_id := 1\<rparr>]
   \<and> the_opportunities (fst (renderOpportunities EarlierFirst 0
         (manager_of [blank\<lparr>opp_id := 1\<rparr>, blank\<lparr>opp_id := 2\<rparr>] ''all'' ''deadline'')))
       = [blank\<lparr>opp_id := 2\<rparr>, blank\<lparr>opp_id := 1\<rparr>]
   \<and> js_sort LaterFirst (sort_comparator 0 ''deadline'')
        [blank\<lparr>opp_id := 1\<rparr>, blank\<lparr>opp_id := 2\<rparr>]
       = [blank\<lparr>opp_id := 1\<rparr>, blank\<lparr>opp_id := 2\<rparr>]"
  by (simp add: render_the_opportunities manager_of_simps js_sort_def precedes_def
        sort_comparator_def blank_def)

text \<open>
  The rest of the order is the same on both kinds of engine: the dated records come
  first, in non-decreasing order of their dates and with equal dates in input order, and
  the records without a deadline follow.
\<close>

lemma insort_undated_key:
  "deadline x = None \<Longrightarrow> \<forall>y\<in>set ds. deadline y \<noteq> None \<Longrightarrow> \<forall>y\<in>set us. deadline y = None \<Longrightarrow>
   insort_key deadline_key x (ds @ us) = ds @ x # us"
proof (induction ds)
  case Nil
  then show ?case by (cases us) (simp_all add: deadline_key_def)
next
  case (Cons y ds)
  then show ?case by (auto simp: deadline_key_def)
qed

lemma insort_dated_key:
  "deadline x = Some d \<Longrightarrow> \<forall>y\<in>set ds. deadline y \<noteq> None \<Longrightarrow> \<forall>y\<in>set us. deadline y = None \<Longrightarrow>
   insort_key deadline_key x (ds @ us) = insort_key deadline_time x ds @ us"
proof (induction ds)
  case Nil
  then show ?case by (cases us) (simp_all add: deadline_key_def)
next
  case (Cons y ds)
  then show ?case by (auto simp: deadline_key_def deadline_time_def)
qed

lemma sort_deadline_key_split:
  "sort_key deadline_key xs
     = sort_key deadline_time (filter (\<lambda>opp. deadline opp \<noteq> None) xs)
       @ filter (\<lambda>opp. deadline opp = None) xs"
proof (induction xs)
  case Nil
  then show ?case by simp
next
  case (Cons x xs)
  show ?case
  proof (cases "deadline x")
    case None
    then show ?thesis
      using Cons.IH by (simp add: insort_undated_key)
  next
    case (Some d)
    then show ?thesis
      using Cons.IH by (simp add: insort_dated_key [OF Some])
  qed
qed

lemma deadline_sort_any_host:
  "js_sort h (sort_comparator now ''deadline'') xs
     = sort_key deadline_time (filter (\<lambda>opp. deadline opp \<noteq> None) xs)
       @ (case h of LaterFirst \<Rightarrow> filter (\<lambda>opp. deadline opp = None) xs
                  | EarlierFirst \<Rightarrow> rev (filter (\<lambda>opp. deadline opp = None) xs))"
  by (cases h)
     (simp_all add: deadline_sort_LaterFirst sort_deadline_key_split deadline_sort_EarlierFirst)

end
